theory Spec2Isabelle
  imports Main
begin

section \<open>Strings and the regular expressions of \<open>static/js/main.js\<close>\<close>

text \<open>
  The chat widget works on JavaScript strings. A string is modelled as a \<open>string\<close>
  (a list of \<open>char\<close>); the characters the code tests for are all ASCII.

  The regular expressions of the source use only single-character atoms, the lazy star
  \<open>*?\<close> and the greedy plus \<open>+\<close>, so a pattern is a list of items, each an atom
  with a quantifier. \<open>rmatch\<close> is the backtracking matcher of ECMAScript restricted to
  these items: it tries the alternatives in the priority order of the language (a lazy
  star first tries to stop, a greedy one first tries to go on) and returns the length of
  the first match that starts at the head of the string.
\<close>

datatype atom =
    Lit char               \<comment> \<open>a literal character, as \<open>\$\<close> or \<open>@\<close>\<close>
  | AnyChar                \<comment> \<open>\<open>[\s\S]\<close>\<close>
  | OneOf "char list"      \<comment> \<open>\<open>[...]\<close>\<close>
  | NoneOf "char list"     \<comment> \<open>\<open>[^...]\<close>\<close>
  | Digit                  \<comment> \<open>\<open>\d\<close>\<close>

datatype item =
    One atom               \<comment> \<open>the atom, once\<close>
  | LazyStar atom          \<comment> \<open>\<open>a*?\<close>\<close>
  | GreedyStar atom        \<comment> \<open>\<open>a*\<close>\<close>

type_synonym regex = "item list"

definition is_digit :: "char \<Rightarrow> bool" where
  "is_digit c = (c \<in> set ''0123456789'')"

fun accepts :: "atom \<Rightarrow> char \<Rightarrow> bool" where
  "accepts (Lit a) c = (c = a)"
| "accepts AnyChar c = True"
| "accepts (OneOf cs) c = (c \<in> set cs)"
| "accepts (NoneOf cs) c = (c \<notin> set cs)"
| "accepts Digit c = is_digit c"

text \<open>\<open>a+\<close> is \<open>a\<close> followed by \<open>a*\<close>.\<close>

definition GreedyPlus :: "atom \<Rightarrow> regex" where
  "GreedyPlus a = [One a, GreedyStar a]"

fun rmatch :: "regex \<Rightarrow> string \<Rightarrow> nat option" where
  "rmatch [] s = Some 0"
| "rmatch (One a # r) [] = None"
| "rmatch (One a # r) (c # cs) =
     (if accepts a c then map_option Suc (rmatch r cs) else None)"
| "rmatch (LazyStar a # r) [] = rmatch r []"
| "rmatch (LazyStar a # r) (c # cs) =
     (case rmatch r (c # cs) of
        Some n \<Rightarrow> Some n
      | None \<Rightarrow> if accepts a c then map_option Suc (rmatch (LazyStar a # r) cs) else None)"
| "rmatch (GreedyStar a # r) [] = rmatch r []"
| "rmatch (GreedyStar a # r) (c # cs) =
     (if accepts a c
      then (case rmatch (GreedyStar a # r) cs of
              Some n \<Rightarrow> Some (Suc n)
            | None \<Rightarrow> rmatch r (c # cs))
      else rmatch r (c # cs))"

text \<open>
  \<open>String.prototype.replace\<close> with a global regular expression and a function as the
  replacement: the string is scanned from the left; where the pattern matches, the
  callback is called with the matched substring and its result is put in place of the
  match, and the scan goes on after the match; a character where no match starts is copied.
  The callbacks of the source change a variable they close over (\<open>math\<close>), so the
  callback takes and returns a state. After an empty match the scan advances by one
  character, as \<open>AdvanceStringIndex\<close> does (no pattern of the source matches the empty
  string).
\<close>

fun replace_global :: "regex \<Rightarrow> (string \<Rightarrow> 's \<Rightarrow> string \<times> 's) \<Rightarrow> string \<Rightarrow> 's \<Rightarrow> string \<times> 's" where
  "replace_global re f [] st =
     (case rmatch re [] of None \<Rightarrow> ([], st) | Some n \<Rightarrow> f [] st)"
| "replace_global re f (c # cs) st =
     (case rmatch re (c # cs) of
        None \<Rightarrow> (case replace_global re f cs st of (out, st') \<Rightarrow> (c # out, st'))
      | Some 0 \<Rightarrow>
          (case f [] st of (r, st1) \<Rightarrow>
             (case replace_global re f cs st1 of (out, st2) \<Rightarrow> (r @ c # out, st2)))
      | Some (Suc k) \<Rightarrow>
          (case f (c # take k cs) st of (r, st1) \<Rightarrow>
             (case replace_global re f (drop k cs) st1 of (out, st2) \<Rightarrow> (r @ out, st2))))"

text \<open>A callback that reads and writes no outer variable.\<close>

definition replace_pure :: "regex \<Rightarrow> (string \<Rightarrow> string) \<Rightarrow> string \<Rightarrow> string" where
  "replace_pure re f s = fst (replace_global re (\<lambda>m u. (f m, u)) s ())"

section \<open>\<open>escapeHtml\<close>\<close>

text \<open>
  \<^verbatim>\<open>
  function escapeHtml(str) {
      return str.replace(/[&<>"']/g, m => ({
      '&': '&amp;', '<': '&lt;', '>': '&gt;', '"': '&quot;', "'": '&#039;'
      }[m]));
  }
  \<close>
  The object literal is an association list; a key that is absent gives \<open>undefined\<close>,
  which \<open>replace\<close> turns into the text \<open>undefined\<close>.
\<close>

definition special_chars :: "char list" where
  "special_chars = [CHR ''&'', CHR ''<'', CHR ''>'', CHR 0x22, CHR 0x27]"

definition entity_table :: "(string \<times> string) list" where
  "entity_table =
     [([CHR ''&''], ''&amp;''),
      ([CHR ''<''], ''&lt;''),
      ([CHR ''>''], ''&gt;''),
      ([CHR 0x22], ''&quot;''),
      ([CHR 0x27], ''&#039;'')]"

definition escapeHtml :: "string \<Rightarrow> string" where
  "escapeHtml str =
     replace_pure [One (OneOf special_chars)]
       (\<lambda>m. case map_of entity_table m of Some e \<Rightarrow> e | None \<Rightarrow> ''undefined'') str"

text \<open>Character by character: each of the five characters becomes its entity, any
  other character stays.\<close>

definition entity_of :: "char \<Rightarrow> string" where
  "entity_of c =
     (if c = CHR ''&'' then ''&amp;''
      else if c = CHR ''<'' then ''&lt;''
      else if c = CHR ''>'' then ''&gt;''
      else if c = CHR 0x22 then ''&quot;''
      else if c = CHR 0x27 then ''&#039;''
      else [c])"

section \<open>The math extractor and restorer\<close>

text \<open>
  The template literal \<^verbatim>\<open>`@@MATH${id}@@`\<close> writes the number \<open>id\<close> in decimal.
\<close>

definition digit_char :: "nat \<Rightarrow> char" where
  "digit_char d = ''0123456789'' ! d"

fun decimal :: "nat \<Rightarrow> string" where
  "decimal n = (if n < 10 then [digit_char n] else decimal (n div 10) @ [digit_char (n mod 10)])"

declare decimal.simps [simp del]

definition placeholder :: "nat \<Rightarrow> string" where
  "placeholder i = ''@@MATH'' @ decimal i @ ''@@''"

text \<open>
  \<^verbatim>\<open>
  function extractMathSegments(text) {
      const math = [];
      const patterns = [
      /\$\$[\s\S]*?\$\$/g,        // $$ ... $$
      /\\\[[\s\S]*?\\\]/g,        // \[ ... \]
      /\$[^$\n]+\$/g,             // $ ... $
      /\\\([^\\]*?\\\)/g          // \( ... \)
      ];
      let replaced = text;
      patterns.forEach((re) => {
      replaced = replaced.replace(re, (m) => {
          const id = math.length;
          math.push(m);
          return `@@MATH${id}@@`;
      });
      });
      return { replaced, math };
  }
  \<close>
  The backslash is \<open>CHR 0x5C\<close> and the line feed \<open>CHR 0x0A\<close>.
\<close>

definition patterns :: "regex list" where
  "patterns =
     [[One (Lit (CHR ''$'')), One (Lit (CHR ''$'')), LazyStar AnyChar,
       One (Lit (CHR ''$'')), One (Lit (CHR ''$''))],
      [One (Lit (CHR 0x5C)), One (Lit (CHR ''['')), LazyStar AnyChar,
       One (Lit (CHR 0x5C)), One (Lit (CHR '']''))],
      One (Lit (CHR ''$'')) # GreedyPlus (NoneOf [CHR ''$'', CHR 0x0A]) @ [One (Lit (CHR ''$''))],
      [One (Lit (CHR 0x5C)), One (Lit (CHR ''('')), LazyStar (NoneOf [CHR 0x5C]),
       One (Lit (CHR 0x5C)), One (Lit (CHR '')''))]]"

record extraction =
  replaced :: string
  math :: "string list"

text \<open>The callback: \<open>id\<close> is the length of the table before the push.\<close>

definition push_math :: "string \<Rightarrow> string list \<Rightarrow> string \<times> string list" where
  "push_math m tbl = (placeholder (length tbl), tbl @ [m])"

text \<open>One round of the \<open>forEach\<close>: \<open>replaced\<close> and \<open>math\<close> are both updated.\<close>

definition extract_pass :: "extraction \<Rightarrow> regex \<Rightarrow> extraction" where
  "extract_pass e re =
     (case replace_global re push_math (replaced e) (math e) of
        (out, tbl) \<Rightarrow> \<lparr>replaced = out, math = tbl\<rparr>)"

definition extractMathSegments :: "string \<Rightarrow> extraction" where
  "extractMathSegments text = foldl extract_pass \<lparr>replaced = text, math = []\<rparr> patterns"

text \<open>
  \<^verbatim>\<open>
  function restoreMathSegments(html, math) {
      return html.replace(/@@MATH(\d+)@@/g, (_, i) => math[Number(i)] || '');
  }
  \<close>
  The group \<open>(\d+)\<close> is what the match holds between the six characters \<open>@@MATH\<close> and
  the two characters \<open>@@\<close>. \<open>Number\<close> reads a string of decimal digits (leading
  zeros allowed). An index outside the array gives \<open>undefined\<close>, and \<open>undefined || ''\<close>
  is the empty string (as is \<open>'' || ''\<close>). JavaScript rounds a number above \<open>2^53\<close>;
  every such number is beyond the length of any array, so the result is the empty string
  there as here.
\<close>

definition token_re :: regex where
  "token_re = map (\<lambda>c. One (Lit c)) ''@@MATH'' @ GreedyPlus Digit @ map (\<lambda>c. One (Lit c)) ''@@''"

definition group1 :: "string \<Rightarrow> string" where
  "group1 m = take (length m - 8) (drop 6 m)"

definition Number :: "string \<Rightarrow> nat" where
  "Number ds = foldl (\<lambda>n c. 10 * n + (of_char c - 48)) 0 ds"

definition segment_at :: "string list \<Rightarrow> nat \<Rightarrow> string" where
  "segment_at tbl i = (if i < length tbl then tbl ! i else [])"

definition restoreMathSegments :: "string \<Rightarrow> string list \<Rightarrow> string" where
  "restoreMathSegments html tbl =
     replace_pure token_re (\<lambda>m. segment_at tbl (Number (group1 m))) html"

text \<open>
  How the restorer's pattern reads, in the words of the specification: a string begins
  with a placeholder token when it is \<open>@@MATH\<close>, a non-empty run of decimal digits and
  \<open>@@\<close>, followed by anything. \<open>token_prefix\<close> gives the digits and the rest.
\<close>

fun strip_prefix :: "string \<Rightarrow> string \<Rightarrow> string option" where
  "strip_prefix [] s = Some s"
| "strip_prefix (p # ps) [] = None"
| "strip_prefix (p # ps) (c # cs) = (if c = p then strip_prefix ps cs else None)"

definition token :: "string \<Rightarrow> string" where
  "token ds = ''@@MATH'' @ ds @ ''@@''"

definition token_prefix :: "string \<Rightarrow> (string \<times> string) option" where
  "token_prefix s =
     (case strip_prefix ''@@MATH'' s of
        None \<Rightarrow> None
      | Some t \<Rightarrow>
          (if takeWhile is_digit t = [] then None
           else (case strip_prefix ''@@'' (dropWhile is_digit t) of
                   None \<Rightarrow> None
                 | Some rest \<Rightarrow> Some (takeWhile is_digit t, rest))))"

text \<open>A string holds a token when one begins at some position of it.\<close>

fun has_token :: "string \<Rightarrow> bool" where
  "has_token [] = False"
| "has_token (c # cs) = (case token_prefix (c # cs) of Some t \<Rightarrow> True | None \<Rightarrow> has_token cs)"

text \<open>
  One pass of the extractor, seen from outside: the scan cuts the text into copied
  characters and matches; the \<open>k\<close>-th match of a pass that starts with \<open>n\<close> segments in
  the table is replaced by the placeholder of index \<open>n + k\<close>.
\<close>

datatype piece = Chr char | Match string

fun pieces :: "regex \<Rightarrow> string \<Rightarrow> piece list" where
  "pieces re [] = (case rmatch re [] of None \<Rightarrow> [] | Some n \<Rightarrow> [Match []])"
| "pieces re (c # cs) =
     (case rmatch re (c # cs) of
        None \<Rightarrow> Chr c # pieces re cs
      | Some 0 \<Rightarrow> Match [] # Chr c # pieces re cs
      | Some (Suc k) \<Rightarrow> Match (c # take k cs) # pieces re (drop k cs))"

fun source_of :: "piece list \<Rightarrow> string" where
  "source_of [] = []"
| "source_of (Chr c # ps) = c # source_of ps"
| "source_of (Match m # ps) = m @ source_of ps"

fun matched :: "piece list \<Rightarrow> string list" where
  "matched [] = []"
| "matched (Chr c # ps) = matched ps"
| "matched (Match m # ps) = m # matched ps"

fun numbered :: "nat \<Rightarrow> piece list \<Rightarrow> string" where
  "numbered n [] = []"
| "numbered n (Chr c # ps) = c # numbered n ps"
| "numbered n (Match m # ps) = placeholder n @ numbered (Suc n) ps"

section \<open>Values the handlers work on\<close>

text \<open>
  \<open>String.prototype.trim\<close> removes white space and line terminators at both ends. Of
  these, a \<open>char\<close> can be the tab, the line feed, the vertical tab, the form feed, the
  carriage return, the space and the no-break space.
\<close>

definition is_space :: "char \<Rightarrow> bool" where
  "is_space c = (c \<in> set [CHR 0x09, CHR 0x0A, CHR 0x0B, CHR 0x0C, CHR 0x0D, CHR 0x20, CHR 0xA0])"

definition trim :: "string \<Rightarrow> string" where
  "trim s = rev (dropWhile is_space (rev (dropWhile is_space s)))"














section \<open>The page and its handlers\<close>

text \<open>
  The children of \<open>#chatMessages\<close> are the bubbles. Each \<open>insertAdjacentHTML\<close> of the
  source appends one of four templates, and the assignment to \<open>innerHTML\<close> of the
  clear handler leaves one; a bubble is named after its template and carries the text
  the template is filled with. \<open>OtherBubble\<close> is anything the page's own HTML put there
  (the default greeting). Only the typing indicator has the id \<open>assistant-typing\<close>.
  Scrolling and typesetting by MathJax do not change the list of bubbles and are left out.
\<close>

datatype bubble =
    UserBubble string
  | TypingBubble
  | AssistantBubble string
  | ErrorBubble
  | ClearedBubble
  | OtherBubble string

record page =
  messages :: "bubble list"                \<comment> \<open>the children of \<open>#chatMessages\<close>\<close>
  input_value :: string                    \<comment> \<open>\<open>chatInput.value\<close>\<close>
  console :: "string list"                 \<comment> \<open>what \<open>console.error\<close> and \<open>console.warn\<close> printed\<close>
  requests :: "(string \<times> (string \<times> string) list) list"
    \<comment> \<open>the calls of \<open>fetch\<close>: the URL and the fields of the JSON body, all strings\<close>

text \<open>
  What an awaited \<open>fetch\<close> gives: the promise is rejected (a network error), or it
  resolves to a response with a status, the text of its body and the body as decoded.
  \<open>res.ok\<close> is true for a status from 200 to 299.
\<close>

datatype 'b fetched = Rejected | Response nat string 'b

definition ok :: "nat \<Rightarrow> bool" where
  "ok st = (200 \<le> st \<and> st \<le> 299)"

fun fetch_failed :: "'b fetched \<Rightarrow> bool" where
  "fetch_failed Rejected = True"
| "fetch_failed (Response st txt b) = (if ok st then False else True)"


text \<open>
  The Markdown renderer \<open>marked.parse\<close> is an external library: the parameter
  \<open>marked\<close>, any function from strings to strings.
\<close>

text \<open>
  The submit handler up to its \<open>await fetch\<close> (lines 50 to 91): the guard on the trimmed
  input, the user bubble, the input reset, the typing indicator and the request.
\<close>

definition submit_begin :: "page \<Rightarrow> page" where
  "submit_begin p =
     (let text = trim (input_value p)
      in if text = [] then p
         else p\<lparr>messages := messages p @ [UserBubble (escapeHtml text), TypingBubble],
                input_value := [],
                requests := requests p @
                  [(''/chat'', [(''message'', text), (''messages'', text)])]\<rparr>)"




text \<open>
  The history handler (lines 217 to 277). A turn is \<open>{ role, content }\<close>, both strings;
  the decoded body is the list under \<open>history\<close>, or \<open>None\<close> when the field is absent
  (\<open>data.history || []\<close>). \<open>render_turn\<close> is the callback of the \<open>forEach\<close>.
\<close>

record turn =
  role :: string
  content :: string

definition render_turn :: "(string \<Rightarrow> string) \<Rightarrow> bubble list \<Rightarrow> turn \<Rightarrow> bubble list" where
  "render_turn marked bs t =
     (if role t = ''human'' then bs @ [UserBubble (escapeHtml (content t))]
      else if role t = ''ai'' then
        (let replyText = trim (content t);
             e = extractMathSegments replyText;
             htmlWithPlaceholders = marked (replaced e);
             replyHtml = restoreMathSegments htmlWithPlaceholders (math e)
         in if replyHtml = [] then bs else bs @ [AssistantBubble replyHtml])
      else bs)"

definition history_loaded :: "(string \<Rightarrow> string) \<Rightarrow> turn list option fetched \<Rightarrow> page \<Rightarrow> page" where
  "history_loaded marked res p =
     (case res of
        Rejected \<Rightarrow> p\<lparr>console := console p @ [''Failed to load chat history:'']\<rparr>
      | Response st txt body \<Rightarrow>
          if ok st then
            (let history = (case body of None \<Rightarrow> [] | Some h \<Rightarrow> h)
             in if history = [] then p
                else p\<lparr>messages := foldl (render_turn marked) [] history\<rparr>)
          else p)"

text \<open>
  The pipeline in the words of the specification: the Extractor on the text, the
  Markdown renderer on the rewritten text, the Restorer on the rendered HTML with the
  Extractor's segment table.
\<close>

definition pipeline :: "(string \<Rightarrow> string) \<Rightarrow> string \<Rightarrow> string" where
  "pipeline marked s =
     restoreMathSegments (marked (replaced (extractMathSegments s)))
       (math (extractMathSegments s))"

text \<open>The turns as the specification describes their bubbles, one turn at a time.\<close>

definition turn_bubbles :: "(string \<Rightarrow> string) \<Rightarrow> turn \<Rightarrow> bubble list" where
  "turn_bubbles marked t =
     (if role t = ''human'' then [UserBubble (concat (map entity_of (content t)))]
      else if role t = ''ai'' \<and> pipeline marked (trim (content t)) \<noteq> []
        then [AssistantBubble (pipeline marked (trim (content t)))]
      else [])"

text \<open>
  A renderer for the examples: it wraps a text that is not empty in a paragraph, as
  Markdown does with one line of plain text.
\<close>

definition paragraph_marked :: "string \<Rightarrow> string" where
  "paragraph_marked s = (if s = [] then [] else ''<p>'' @ s @ ''</p>'')"






text \<open>The clear handler once its fetch has settled (lines 282 to 306).\<close>

definition clear_done :: "unit fetched \<Rightarrow> page \<Rightarrow> page" where
  "clear_done res p =
     (case res of
        Rejected \<Rightarrow> p\<lparr>console := console p @ [''Error clearing history:'']\<rparr>
      | Response st txt body \<Rightarrow>
          if ok st then p\<lparr>messages := [ClearedBubble]\<rparr>
          else p\<lparr>console := console p @ [''Failed to clear history: '' @ txt]\<rparr>)"


section \<open>Properties of \<open>escapeHtml\<close>\<close>

lemma escapeHtml_Nil: "escapeHtml [] = []"
  by (simp add: escapeHtml_def replace_pure_def)

lemma escapeHtml_Cons: "escapeHtml (c # cs) = entity_of c @ escapeHtml cs"
  by (simp add: escapeHtml_def replace_pure_def special_chars_def entity_table_def
      entity_of_def split: prod.splits)

lemma escapeHtml_concat: "escapeHtml s = concat (map entity_of s)"
  by (induction s) (simp_all add: escapeHtml_Nil escapeHtml_Cons)

lemma entity_of_clean:
  "set (entity_of c) \<inter> {CHR ''<'', CHR ''>'', CHR 0x22, CHR 0x27} = {}"
  by (simp add: entity_of_def)

text \<open>
  C10. For every string, \<open>escapeHtml\<close> replaces each of \<open>&\<close>, \<open><\<close>, \<open>>\<close>, \<open>"\<close>, \<open>'\<close>
  by its entity and leaves every other character (the backslash too) as it is; the
  result holds none of \<open><\<close>, \<open>>\<close>, \<open>"\<close>, \<open>'\<close>.
\<close>

theorem escapeHtml_entities:
  "escapeHtml s = concat (map entity_of s)
   \<and> entity_of (CHR 0x5C) = [CHR 0x5C]
   \<and> set (escapeHtml s) \<inter> {CHR ''<'', CHR ''>'', CHR 0x22, CHR 0x27} = {}"
proof -
  have "set (concat (map entity_of s)) \<inter> {CHR ''<'', CHR ''>'', CHR 0x22, CHR 0x27} = {}"
    using entity_of_clean by (induction s) (simp_all add: Int_Un_distrib2)
  then show ?thesis
    by (simp add: escapeHtml_concat entity_of_def)
qed

section \<open>Properties of the extractor\<close>

lemma source_of_pieces: "source_of (pieces re s) = s"
  by (induction re s rule: pieces.induct) (auto split: option.splits nat.splits)

lemma replace_global_push_math:
  "replace_global re push_math s tbl =
     (numbered (length tbl) (pieces re s), tbl @ matched (pieces re s))"
proof (induction re s arbitrary: tbl rule: pieces.induct)
  case (1 re)
  then show ?case by (simp add: push_math_def split: option.splits)
next
  case (2 re c cs)
  then show ?case
    by (simp add: push_math_def split: option.splits nat.splits)
qed

lemma extract_pass_pieces:
  "extract_pass e re =
     \<lparr>replaced = numbered (length (math e)) (pieces re (replaced e)),
      math = math e @ matched (pieces re (replaced e))\<rparr>"
  by (simp add: extract_pass_def replace_global_push_math)

lemma extract_four_passes:
  "extractMathSegments T =
     extract_pass (extract_pass (extract_pass (extract_pass
       \<lparr>replaced = T, math = []\<rparr> (patterns ! 0)) (patterns ! 1)) (patterns ! 2)) (patterns ! 3)"
  by (simp add: extractMathSegments_def patterns_def)

lemma extract_cost_example:
  "extractMathSegments ''Cost: $$x^2$$ and inline $y$'' =
     \<lparr>replaced = ''Cost: @@MATH0@@ and inline @@MATH1@@'', math = [''$$x^2$$'', ''$y$'']\<rparr>"
  by code_simp

text \<open>
  C8. \<open>extractMathSegments\<close> runs the four patterns one after another; each pass cuts
  the current text, left to right, into copied characters and matches, appends the
  matches as they are to the segment table and puts, for the \<open>k\<close>-th match, the
  placeholder of the next free index. On \<open>Cost: $$x^2$$ and inline $y$\<close> it gives the
  table \<open>[$$x^2$$, $y$]\<close> and the text \<open>Cost: @@MATH0@@ and inline @@MATH1@@\<close>.
\<close>

theorem extract_sequential_indices:
  "extractMathSegments T =
     extract_pass (extract_pass (extract_pass (extract_pass
       \<lparr>replaced = T, math = []\<rparr> (patterns ! 0)) (patterns ! 1)) (patterns ! 2)) (patterns ! 3)
   \<and> extract_pass e re =
       \<lparr>replaced = numbered (length (math e)) (pieces re (replaced e)),
        math = math e @ matched (pieces re (replaced e))\<rparr>
   \<and> source_of (pieces re s) = s
   \<and> extractMathSegments ''Cost: $$x^2$$ and inline $y$'' =
       \<lparr>replaced = ''Cost: @@MATH0@@ and inline @@MATH1@@'', math = [''$$x^2$$'', ''$y$'']\<rparr>"
  using extract_four_passes [of T] extract_pass_pieces [of e re] source_of_pieces [of re s]
    extract_cost_example
  by simp

section \<open>Properties of the restorer\<close>

lemma strip_prefix_Some: "strip_prefix p s = Some t \<longleftrightarrow> s = p @ t"
  by (induction p s rule: strip_prefix.induct) auto

lemma not_digit_at [simp]: "\<not> is_digit (CHR ''@'')"
  by (simp add: is_digit_def)

lemma rmatch_literal:
  "rmatch (map (\<lambda>c. One (Lit c)) p @ r) s =
     (case strip_prefix p s of
        None \<Rightarrow> None
      | Some t \<Rightarrow> map_option (\<lambda>n. n + length p) (rmatch r t))"
proof (induction p s rule: strip_prefix.induct)
  case (1 s)
  then show ?case by (simp add: option.map_ident)
next
  case (2 p ps)
  then show ?case by simp
next
  case (3 p ps c cs)
  then show ?case
    by (simp add: option.map_comp comp_def split: option.splits)
qed

lemma rmatch_digits:
  "rmatch [GreedyStar Digit, One (Lit (CHR ''@'')), One (Lit (CHR ''@''))] s =
     (case strip_prefix ''@@'' (dropWhile is_digit s) of
        None \<Rightarrow> None
      | Some rest \<Rightarrow> Some (length (takeWhile is_digit s) + 2))"
proof (induction s)
  case Nil
  then show ?case by simp
next
  case (Cons c cs)
  show ?case
  proof (cases "is_digit c")
    case True
    then have "c \<noteq> CHR ''@''" by auto
    with True Cons show ?thesis by (simp split: option.splits)
  next
    case False
    then show ?thesis
      by (cases cs) (auto)
  qed
qed

lemma rmatch_token_re:
  "rmatch token_re s =
     (case token_prefix s of
        None \<Rightarrow> None
      | Some (ds, rest) \<Rightarrow> Some (length (token ds)))"
proof (cases "strip_prefix ''@@MATH'' s")
  case None
  then show ?thesis
    using rmatch_literal [of "''@@MATH''" "GreedyPlus Digit @ map (\<lambda>c. One (Lit c)) ''@@''" s]
    by (simp add: token_re_def token_prefix_def)
next
  case (Some t)
  have m: "rmatch token_re s =
      map_option (\<lambda>n. n + length ''@@MATH'')
        (rmatch (GreedyPlus Digit @ map (\<lambda>c. One (Lit c)) ''@@'') t)"
    using Some
      rmatch_literal [of "''@@MATH''" "GreedyPlus Digit @ map (\<lambda>c. One (Lit c)) ''@@''" s]
    by (simp add: token_re_def)
  show ?thesis
  proof (cases t)
    case Nil
    with Some m show ?thesis by (simp add: GreedyPlus_def token_prefix_def)
  next
    case (Cons d t')
    have "rmatch (GreedyPlus Digit @ map (\<lambda>c. One (Lit c)) ''@@'') (d # t') =
        (if is_digit d
         then map_option Suc (rmatch (GreedyStar Digit # map (\<lambda>c. One (Lit c)) ''@@'') t')
         else None)"
      by (simp add: GreedyPlus_def)
    with Some m Cons show ?thesis
      by (simp add: token_prefix_def token_def rmatch_digits split: option.splits)
  qed
qed

lemma token_prefix_shape:
  "token_prefix s = Some (ds, rest) \<longleftrightarrow>
     s = token ds @ rest \<and> ds \<noteq> [] \<and> list_all is_digit ds"
proof
  assume "token_prefix s = Some (ds, rest)"
  then obtain t where t: "strip_prefix ''@@MATH'' s = Some t"
    and ds: "ds = takeWhile is_digit t" "ds \<noteq> []"
    and r: "strip_prefix ''@@'' (dropWhile is_digit t) = Some rest"
    by (auto simp: token_prefix_def split: option.splits if_splits)
  from t have "s = ''@@MATH'' @ t" by (simp only: strip_prefix_Some)
  moreover from r have "dropWhile is_digit t = ''@@'' @ rest" by (simp only: strip_prefix_Some)
  moreover have "t = takeWhile is_digit t @ dropWhile is_digit t" by simp
  ultimately have "s = token ds @ rest"
    using ds by (metis append.assoc token_def)
  moreover have "list_all is_digit ds"
    using ds by (simp add: list_all_iff) (meson set_takeWhileD)
  ultimately show "s = token ds @ rest \<and> ds \<noteq> [] \<and> list_all is_digit ds"
    using ds by simp
next
  assume a: "s = token ds @ rest \<and> ds \<noteq> [] \<and> list_all is_digit ds"
  then have s: "s = ''@@MATH'' @ (ds @ ''@@'' @ rest)" by (simp add: token_def)
  have sp: "strip_prefix ''@@MATH'' s = Some (ds @ ''@@'' @ rest)"
    unfolding strip_prefix_Some using s .
  have tw: "takeWhile is_digit (ds @ ''@@'' @ rest) = ds"
    using a by (simp add: list_all_iff)
  have dw: "dropWhile is_digit (ds @ ''@@'' @ rest) = ''@@'' @ rest"
    using a by (simp add: list_all_iff)
  have "strip_prefix ''@@'' (''@@'' @ rest) = Some rest"
    unfolding strip_prefix_Some ..
  with sp tw dw a show "token_prefix s = Some (ds, rest)"
    by (simp add: token_prefix_def)
qed


lemma group1_token: "group1 (token ds) = ds"
  by (simp add: group1_def token_def)

lemma restore_Nil: "restoreMathSegments [] tbl = []"
  by (simp add: restoreMathSegments_def replace_pure_def rmatch_token_re token_prefix_def)

lemma restore_no_token:
  assumes "token_prefix (c # cs) = None"
  shows "restoreMathSegments (c # cs) tbl = c # restoreMathSegments cs tbl"
  using assms
  by (simp add: restoreMathSegments_def replace_pure_def rmatch_token_re split: prod.splits)

lemma restore_token:
  assumes "ds \<noteq> []" and "list_all is_digit ds"
  shows "restoreMathSegments (token ds @ rest) tbl =
           segment_at tbl (Number ds) @ restoreMathSegments rest tbl"
proof -
  have tp: "token_prefix (token ds @ rest) = Some (ds, rest)"
    using assms by (simp add: token_prefix_shape)
  obtain c cs where cs: "token ds @ rest = c # cs"
    by (cases "token ds @ rest") (simp_all add: token_def)
  obtain k where k: "length (token ds) = Suc k"
    by (cases "length (token ds)") (simp_all add: token_def)
  have "take (Suc k) (c # cs) = token ds" "drop (Suc k) (c # cs) = rest"
    using cs k by (metis append_eq_conv_conj)+
  then have tk: "c # take k cs = token ds" and dr: "drop k cs = rest"
    by simp_all
  have "rmatch token_re (c # cs) = Some (Suc k)"
    using tp cs k by (simp add: rmatch_token_re)
  then show ?thesis
    unfolding cs
    by (simp add: restoreMathSegments_def replace_pure_def tk dr group1_token
        split: prod.splits)
qed

lemma lt10_cases:
  "d < 10 \<Longrightarrow> d = 0 \<or> d = 1 \<or> d = 2 \<or> d = 3 \<or> d = 4 \<or> d = 5 \<or> d = 6 \<or> d = 7 \<or> d = 8 \<or> d = (9::nat)"
  by arith

lemma digit_char_is_digit: "d < 10 \<Longrightarrow> is_digit (digit_char d)"
  using lt10_cases [of d] by (auto simp: digit_char_def is_digit_def)

lemma digit_char_value: "d < 10 \<Longrightarrow> of_char (digit_char d) - 48 = d"
  using lt10_cases [of d] by (auto simp: digit_char_def)

lemma decimal_digits: "decimal n \<noteq> [] \<and> list_all is_digit (decimal n)"
proof (induction n rule: decimal.induct)
  case (1 n)
  show ?case
  proof (cases "n < 10")
    case True
    then show ?thesis by (simp add: decimal.simps [of n] digit_char_is_digit)
  next
    case False
    with 1 show ?thesis
      by (simp add: decimal.simps [of n] digit_char_is_digit)
  qed
qed

lemma Number_snoc: "Number (ds @ [c]) = 10 * Number ds + (of_char c - 48)"
  by (simp add: Number_def)

lemma Number_decimal: "Number (decimal n) = n"
proof (induction n rule: decimal.induct)
  case (1 n)
  show ?case
  proof (cases "n < 10")
    case True
    then show ?thesis by (simp add: decimal.simps [of n] Number_def digit_char_value)
  next
    case False
    with 1 show ?thesis
      by (simp add: decimal.simps [of n] Number_snoc digit_char_value)
  qed
qed

lemma placeholder_token: "placeholder i = token (decimal i)"
  by (simp add: placeholder_def token_def)

lemma restore_placeholder:
  "restoreMathSegments (placeholder i @ rest) tbl =
     (if i < length tbl then tbl ! i else []) @ restoreMathSegments rest tbl"
  using restore_token [of "decimal i" rest tbl] decimal_digits [of i]
  by (simp add: placeholder_token Number_decimal segment_at_def)

lemma restore_token_free: "has_token html = False \<Longrightarrow> restoreMathSegments html tbl = html"
proof (induction html)
  case Nil
  then show ?case by (simp add: restore_Nil)
next
  case (Cons c cs)
  from Cons.prems have n: "token_prefix (c # cs) = None" and r: "has_token cs = False"
    by (simp_all split: option.splits)
  from Cons.IH [OF r] restore_no_token [OF n] show ?case by simp
qed

text \<open>
  C9. For every HTML string and every segment table, \<open>restoreMathSegments\<close> replaces
  each placeholder token its scan meets by the segment at the token's number, and by the
  empty string when the number is outside the table; a character where no token begins
  is copied. In particular the token \<open>placeholder i\<close> becomes segment \<open>i\<close>, or nothing,
  and a string without tokens comes back as it is.
\<close>

theorem restore_replaces_tokens:
  "restoreMathSegments [] tbl = []
   \<and> (ds \<noteq> [] \<and> list_all is_digit ds \<longrightarrow>
        restoreMathSegments (token ds @ rest) tbl =
          (if Number ds < length tbl then tbl ! Number ds else []) @ restoreMathSegments rest tbl)
   \<and> (token_prefix (c # cs) = None \<longrightarrow>
        restoreMathSegments (c # cs) tbl = c # restoreMathSegments cs tbl)
   \<and> restoreMathSegments (placeholder i @ rest) tbl =
        (if i < length tbl then tbl ! i else []) @ restoreMathSegments rest tbl
   \<and> (has_token html = False \<longrightarrow> restoreMathSegments html tbl = html)"
  using restore_Nil restore_token [of ds rest tbl] restore_no_token [of c cs tbl]
    restore_placeholder [of i rest tbl] restore_token_free [of html tbl]
  by (simp add: segment_at_def)

theorem restore_replaces_tokens_witness:
  "restoreMathSegments (token ''007'' @ ''b'') [''x'', ''y''] = restoreMathSegments ''b'' [''x'', ''y'']
   \<and> restoreMathSegments (token ''1'' @ ''b'') [''x'', ''y''] = ''y'' @ restoreMathSegments ''b'' [''x'', ''y'']
   \<and> restoreMathSegments ''b'' [''x'', ''y''] = ''b''"
proof -
  have d1: "''007'' \<noteq> [] \<and> list_all is_digit ''007''" by (simp add: is_digit_def)
  have d2: "''1'' \<noteq> [] \<and> list_all is_digit ''1''" by (simp add: is_digit_def)
  have n1: "Number ''007'' = 7" by (simp add: Number_def)
  have n2: "Number ''1'' = 1" by (simp add: Number_def)
  have np: "token_prefix ''b'' = None" by (simp add: token_prefix_def)
  show ?thesis
    using restore_replaces_tokens [of "[''x'', ''y'']" "''007''" "''b''" "CHR ''b''" "[]" 0 "''b''"]
      restore_replaces_tokens [of "[''x'', ''y'']" "''1''" "''b''" "CHR ''b''" "[]" 0 "''b''"]
      d1 d2 n1 n2 np
    by simp
qed

section \<open>Properties of the handlers\<close>

lemma trim_blank: "list_all is_space s \<Longrightarrow> trim s = []"
proof -
  assume "list_all is_space s"
  then have "dropWhile is_space s = []"
    using dropWhile_eq_Nil_conv [of is_space s] by (simp add: list_all_iff)
  then show "trim s = []" by (simp only: trim_def rev.simps dropWhile.simps)
qed

text \<open>
  C7. A submission whose input is empty or holds white space only is rejected: the page
  is exactly as before, so no bubble was appended and no request was issued.
\<close>

theorem blank_submit_rejected:
  assumes "list_all is_space (input_value p)"
  shows "submit_begin p = p
     \<and> messages (submit_begin p) = messages p
     \<and> requests (submit_begin p) = requests p"
  using assms by (simp add: submit_begin_def trim_blank)

theorem blank_submit_rejected_witness:
  "list_all is_space [CHR 0x20, CHR 0x09, CHR 0x0A]
   \<and> submit_begin \<lparr>messages = [OtherBubble ''Hi''], input_value = [CHR 0x20, CHR 0x09, CHR 0x0A],
        console = [], requests = []\<rparr>
     = \<lparr>messages = [OtherBubble ''Hi''], input_value = [CHR 0x20, CHR 0x09, CHR 0x0A],
        console = [], requests = []\<rparr>"
proof -
  have h: "list_all is_space [CHR 0x20, CHR 0x09, CHR 0x0A]" by (simp add: is_space_def)
  show ?thesis
    using h blank_submit_rejected [of "\<lparr>messages = [OtherBubble ''Hi''],
        input_value = [CHR 0x20, CHR 0x09, CHR 0x0A], console = [], requests = []\<rparr>"]
    by simp
qed












lemma clear_done_messages:
  "messages (clear_done res p) = (if fetch_failed res then messages p else [ClearedBubble])"
  by (cases res) (simp_all add: clear_done_def)

lemma clear_done_failed:
  "fetch_failed res \<Longrightarrow> \<exists>entry. clear_done res p = p\<lparr>console := console p @ [entry]\<rparr>"
  by (cases res) (auto simp: clear_done_def split: if_splits)

text \<open>
  C5. The clear handler resets the panel to the single default message exactly when the
  \<open>/clear_history\<close> request succeeds; when it fails (not 2xx, or rejected) the page is
  as before but for one more line on the console.
\<close>

theorem clear_only_on_success:
  "messages (clear_done res p) = (if fetch_failed res then messages p else [ClearedBubble])
   \<and> (fetch_failed res \<longrightarrow> (\<exists>entry. clear_done res p = p\<lparr>console := console p @ [entry]\<rparr>))
   \<and> (messages p \<noteq> [ClearedBubble] \<longrightarrow>
        (messages (clear_done res p) = [ClearedBubble]) = (\<not> fetch_failed res))"
  using clear_done_messages [of res p] clear_done_failed [of res p]
  by auto

theorem clear_only_on_success_witness:
  "messages (clear_done (Response 503 ''down'' ())
      \<lparr>messages = [UserBubble ''a'', AssistantBubble ''b''], input_value = [], console = [],
       requests = []\<rparr>) = [UserBubble ''a'', AssistantBubble ''b'']
   \<and> messages (clear_done (Response 200 [] ())
      \<lparr>messages = [UserBubble ''a'', AssistantBubble ''b''], input_value = [], console = [],
       requests = []\<rparr>) = [ClearedBubble]"
proof -
  have f: "fetch_failed (Response 503 ''down'' ())" by (simp add: ok_def)
  have s: "\<not> fetch_failed (Response 200 [] ())" by (simp add: ok_def)
  show ?thesis
    using f s
      clear_only_on_success [of "Response 503 ''down'' ()"
        "\<lparr>messages = [UserBubble ''a'', AssistantBubble ''b''], input_value = [], console = [],
          requests = []\<rparr>"]
      clear_only_on_success [of "Response 200 [] ()"
        "\<lparr>messages = [UserBubble ''a'', AssistantBubble ''b''], input_value = [], console = [],
          requests = []\<rparr>"]
    by simp
qed

lemma render_turn_bubbles: "render_turn marked bs t = bs @ turn_bubbles marked t"
  by (simp add: render_turn_def turn_bubbles_def pipeline_def escapeHtml_concat Let_def)

lemma foldl_render_turn:
  "foldl (render_turn marked) bs h = bs @ concat (map (turn_bubbles marked) h)"
  by (induction h arbitrary: bs) (simp_all add: render_turn_bubbles)

lemma history_failed:
  "fetch_failed res \<Longrightarrow> messages (history_loaded marked res p) = messages p"
  by (cases res) (simp_all add: history_loaded_def split: if_splits)

lemma history_empty:
  "ok st \<Longrightarrow> body = None \<or> body = Some [] \<Longrightarrow>
     history_loaded marked (Response st tx body) p = p"
  by (auto simp: history_loaded_def)

lemma history_entries:
  "ok st \<Longrightarrow> h \<noteq> [] \<Longrightarrow>
     messages (history_loaded marked (Response st tx (Some h)) p)
       = concat (map (turn_bubbles marked) h)"
  by (simp add: history_loaded_def foldl_render_turn)

lemma turn_bubbles_human:
  "role t = ''human'' \<Longrightarrow> turn_bubbles marked t = [UserBubble (escapeHtml (content t))]"
  by (simp add: turn_bubbles_def escapeHtml_concat)

lemma turn_bubbles_ai:
  "role t = ''ai'' \<Longrightarrow> turn_bubbles marked t =
     (if restoreMathSegments (marked (replaced (extractMathSegments (trim (content t)))))
           (math (extractMathSegments (trim (content t)))) = []
      then []
      else [AssistantBubble
             (restoreMathSegments (marked (replaced (extractMathSegments (trim (content t)))))
               (math (extractMathSegments (trim (content t)))))])"
  by (simp add: turn_bubbles_def pipeline_def)

lemma turn_bubbles_other:
  "role t \<noteq> ''human'' \<Longrightarrow> role t \<noteq> ''ai'' \<Longrightarrow> turn_bubbles marked t = []"
  by (simp add: turn_bubbles_def)

text \<open>
  C4. On the initial history load, a failed request and a history without entries leave
  the bubbles as they are; a history with entries replaces the bubbles by those of its
  turns in order. A human turn gives a user bubble with the escaped text. An assistant
  turn goes through the pipeline: its trimmed text through \<open>extractMathSegments\<close>, the
  rewritten text through the Markdown renderer, the rendered HTML through
  \<open>restoreMathSegments\<close> with the extractor's table; the result is the text of an
  assistant bubble, and when it is empty the turn gives no bubble. One human turn and one
  assistant turn that renders to nothing give exactly the human bubble.
\<close>

theorem history_replay:
  "(fetch_failed res \<longrightarrow> messages (history_loaded marked res p) = messages p)
   \<and> (ok st \<and> (body = None \<or> body = Some []) \<longrightarrow>
        history_loaded marked (Response st tx body) p = p)
   \<and> (ok st \<and> h \<noteq> [] \<longrightarrow>
        messages (history_loaded marked (Response st tx (Some h)) p)
          = concat (map (turn_bubbles marked) h))
   \<and> (role t = ''human'' \<longrightarrow>
        turn_bubbles marked t = [UserBubble (escapeHtml (content t))])
   \<and> (role t = ''ai'' \<longrightarrow>
        turn_bubbles marked t =
          (if restoreMathSegments (marked (replaced (extractMathSegments (trim (content t)))))
                (math (extractMathSegments (trim (content t)))) = []
           then []
           else [AssistantBubble
                  (restoreMathSegments (marked (replaced (extractMathSegments (trim (content t)))))
                    (math (extractMathSegments (trim (content t)))))]))
   \<and> (ok st \<and> role t1 = ''human'' \<and> role t2 = ''ai''
        \<and> restoreMathSegments (marked (replaced (extractMathSegments (trim (content t2)))))
             (math (extractMathSegments (trim (content t2)))) = [] \<longrightarrow>
        messages (history_loaded marked (Response st tx (Some [t1, t2])) p)
          = [UserBubble (escapeHtml (content t1))])"
proof -
  have "ok st \<and> role t1 = ''human'' \<and> role t2 = ''ai''
        \<and> restoreMathSegments (marked (replaced (extractMathSegments (trim (content t2)))))
             (math (extractMathSegments (trim (content t2)))) = [] \<longrightarrow>
        messages (history_loaded marked (Response st tx (Some [t1, t2])) p)
          = [UserBubble (escapeHtml (content t1))]"
    using history_entries [of st "[t1, t2]" marked tx p]
    by (simp add: turn_bubbles_human turn_bubbles_ai)
  then show ?thesis
    using history_failed [of res marked p] history_empty [of st body marked tx p]
      history_entries [of st h marked tx p] turn_bubbles_human [of t marked]
      turn_bubbles_ai [of t marked]
    by blast
qed

lemma pipeline_blank_example:
  "restoreMathSegments (paragraph_marked (replaced (extractMathSegments (trim ''  ''))))
     (math (extractMathSegments (trim ''  ''))) = []"
  by code_simp

lemma pipeline_math_example:
  "restoreMathSegments (paragraph_marked (replaced (extractMathSegments (trim '' see $x$''))))
     (math (extractMathSegments (trim '' see $x$''))) = ''<p>see $x$</p>''"
  by code_simp

theorem history_replay_witness:
  "messages (history_loaded paragraph_marked Rejected
      \<lparr>messages = [OtherBubble ''Hello''], input_value = [], console = [], requests = []\<rparr>)
     = [OtherBubble ''Hello'']
   \<and> messages (history_loaded paragraph_marked (Response 200 [] (Some []))
      \<lparr>messages = [OtherBubble ''Hello''], input_value = [], console = [], requests = []\<rparr>)
     = [OtherBubble ''Hello'']
   \<and> messages (history_loaded paragraph_marked
      (Response 200 [] (Some [\<lparr>role = ''ai'', content = '' see $x$''\<rparr>]))
      \<lparr>messages = [OtherBubble ''Hello''], input_value = [], console = [], requests = []\<rparr>)
     = [AssistantBubble ''<p>see $x$</p>'']
   \<and> messages (history_loaded paragraph_marked
      (Response 200 [] (Some [\<lparr>role = ''human'', content = ''1 < 2''\<rparr>,
                               \<lparr>role = ''ai'', content = ''  ''\<rparr>]))
      \<lparr>messages = [OtherBubble ''Hello''], input_value = [], console = [], requests = []\<rparr>)
     = [UserBubble ''1 &lt; 2'']"
proof -
  define P where "P = \<lparr>messages = [OtherBubble ''Hello''], input_value = [], console = [],
    requests = []\<rparr>"
  define H where "H = \<lparr>role = ''human'', content = ''1 < 2''\<rparr>"
  define A where "A = \<lparr>role = ''ai'', content = ''  ''\<rparr>"
  define B where "B = \<lparr>role = ''ai'', content = '' see $x$''\<rparr>"
  have k: "ok 200" by (simp add: ok_def)
  have f: "fetch_failed (Rejected :: turn list option fetched)" by simp
  have e: "escapeHtml (content H) = ''1 &lt; 2''"
    by (simp add: H_def escapeHtml_concat entity_of_def)
  have r: "restoreMathSegments (paragraph_marked (replaced (extractMathSegments (trim (content A)))))
             (math (extractMathSegments (trim (content A)))) = []"
    using pipeline_blank_example by (simp add: A_def)
  have hr: "role H = ''human''" "role A = ''ai''" "role B = ''ai''"
    by (simp_all add: H_def A_def B_def)
  note T = history_replay [of Rejected paragraph_marked P 200 "Some []" "[]" "[B]" B H A]
  have c1: "messages (history_loaded paragraph_marked Rejected P) = messages P"
    using T f by blast
  have c2: "history_loaded paragraph_marked (Response 200 [] (Some [])) P = P"
    using T k by blast
  have "[B] \<noteq> []" by simp
  with T k have m: "messages (history_loaded paragraph_marked (Response 200 [] (Some [B])) P)
      = concat (map (turn_bubbles paragraph_marked) [B])"
    by blast
  from T hr have "turn_bubbles paragraph_marked B =
      (if restoreMathSegments (paragraph_marked (replaced (extractMathSegments (trim (content B)))))
            (math (extractMathSegments (trim (content B)))) = []
       then []
       else [AssistantBubble
              (restoreMathSegments
                (paragraph_marked (replaced (extractMathSegments (trim (content B)))))
                (math (extractMathSegments (trim (content B)))))])"
    by blast
  then have b: "turn_bubbles paragraph_marked B = [AssistantBubble ''<p>see $x$</p>'']"
    using pipeline_math_example by (simp add: B_def)
  from m b have c3: "messages (history_loaded paragraph_marked (Response 200 [] (Some [B])) P)
      = [AssistantBubble ''<p>see $x$</p>'']"
    by simp
  have c4: "messages (history_loaded paragraph_marked (Response 200 [] (Some [H, A])) P)
      = [UserBubble (escapeHtml (content H))]"
    using T k hr r by blast
  have "messages P = [OtherBubble ''Hello'']" by (simp add: P_def)
  with c1 c2 c3 c4 e show ?thesis
    unfolding P_def H_def A_def B_def by simp
qed










section \<open>The round trip through extractor and restorer\<close>

lemma has_token_iff:
  "has_token s \<longleftrightarrow>
     (\<exists>pre ds post. s = pre @ token ds @ post \<and> ds \<noteq> [] \<and> list_all is_digit ds)"
proof (induction s)
  case Nil
  then show ?case by (simp add: token_def)
next
  case (Cons c cs)
  show ?case
  proof (cases "token_prefix (c # cs)")
    case (Some a)
    obtain ds rest where "a = (ds, rest)" by (cases a)
    with Some have "c # cs = [] @ token ds @ rest \<and> ds \<noteq> [] \<and> list_all is_digit ds"
      by (simp add: token_prefix_shape)
    then have "\<exists>pre ds post. c # cs = pre @ token ds @ post \<and> ds \<noteq> [] \<and> list_all is_digit ds"
      by blast
    with Some show ?thesis by simp
  next
    case None
    have "(\<exists>pre ds post. c # cs = pre @ token ds @ post \<and> ds \<noteq> [] \<and> list_all is_digit ds)
        \<longleftrightarrow> (\<exists>pre ds post. cs = pre @ token ds @ post \<and> ds \<noteq> [] \<and> list_all is_digit ds)"
      (is "?L \<longleftrightarrow> ?R")
    proof
      assume ?L
      then obtain pre ds post
        where h: "c # cs = pre @ token ds @ post" "ds \<noteq> []" "list_all is_digit ds"
        by blast
      show ?R
      proof (cases pre)
        case Nil
        with h have "token_prefix (c # cs) = Some (ds, post)"
          by (simp add: token_prefix_shape)
        with None show ?thesis by simp
      next
        case (Cons x pre')
        with h have "cs = pre' @ token ds @ post" by simp
        with h show ?thesis by blast
      qed
    next
      assume ?R
      then obtain pre ds post
        where h: "cs = pre @ token ds @ post" "ds \<noteq> []" "list_all is_digit ds"
        by blast
      then have "c # cs = (c # pre) @ token ds @ post" by simp
      with h show ?L by blast
    qed
    with None Cons show ?thesis by simp
  qed
qed

text \<open>
  C1. The round trip fails on \<open>$ $$x$$ $\<close>, a text without any token: the first
  pattern turns \<open>$$x$$\<close> into \<open>@@MATH0@@\<close>, the third pattern then matches the whole of
  \<open>$ @@MATH0@@ $\<close> and stores it, placeholder included, as segment 1; the restorer's
  single pass puts segment 1 back and stops, so the result is \<open>$ @@MATH0@@ $\<close> and not
  the text. Where no match lies inside another, as in the specification's example, the
  text does come back.
\<close>

theorem roundtrip_fails_on_nested_match:
  "has_token ''$ $$x$$ $'' = False
   \<and> replaced (extractMathSegments ''$ $$x$$ $'') = ''@@MATH1@@''
   \<and> math (extractMathSegments ''$ $$x$$ $'') = [''$$x$$'', ''$ @@MATH0@@ $'']
   \<and> restoreMathSegments (replaced (extractMathSegments ''$ $$x$$ $''))
         (math (extractMathSegments ''$ $$x$$ $'')) = ''$ @@MATH0@@ $''
   \<and> restoreMathSegments (replaced (extractMathSegments ''Cost: $$x^2$$ and inline $y$''))
         (math (extractMathSegments ''Cost: $$x^2$$ and inline $y$''))
       = ''Cost: $$x^2$$ and inline $y$''"
  by code_simp

text \<open>
  C3. On the same text the restorer's output still holds a placeholder token: the
  token \<open>@@MATH0@@\<close> that the extractor inserted is never consumed.
\<close>

theorem residual_token_after_restore:
  "has_token ''$ $$x$$ $'' = False
   \<and> has_token (restoreMathSegments (replaced (extractMathSegments ''$ $$x$$ $''))
         (math (extractMathSegments ''$ $$x$$ $''))) = True"
  by code_simp

end
